theory Spec2Isabelle
  imports Main
begin

section \<open>Data model (types.ts)\<close>

text \<open>
  The gateway bridges one WebSocket connection to at most one remote shell. The provider
  objects have type \<open>any\<close> in the source: the transport handle (\<open>NodeSSH\<close>) and the shell
  channel are modelled by their identities, and what their methods do (return or raise) is
  read from an environment, one per handler run.

  The sources hold two revisions of the manager and of the bridge. The later ones are the
  manager that opens \<open>ssh-manager.ts\<close> and the bridge that closes that file; they keep the
  names of the source here. The earlier ones are the manager in the middle of
  \<open>ssh-manager.ts\<close> and the bridge in \<open>index.ts\<close>; what they do differently is modelled too,
  under the same names with \<open>_earlier\<close> appended. The two bridges differ in \<open>sendResponse\<close>,
  in the \<open>connected\<close> response, in the listeners on the shell and in logging; their
  handling of \<open>command\<close>, \<open>resize\<close> and \<open>disconnect\<close> messages and of unparsable frames is
  the same. The two managers differ in the options of \<open>ssh.connect\<close> and in logging, and
  \<open>closeSession\<close> is the same in both.

  Each handler is modelled as one uninterrupted run: the interleaving of handlers at an
  \<open>await\<close> is outside the model.
\<close>

type_synonym handle = nat
type_synonym channel = nat

record SSHConnectionConfig =
  host :: string
  port :: int
  username :: string
  password :: "string option"
  privateKey :: "string option"
  passphrase :: "string option"

record SSHMessage =
  msg_type :: string
  msg_config :: "SSHConnectionConfig option"
  msg_command :: "string option"
  msg_cols :: "int option"
  msg_rows :: "int option"

datatype response_type = connected | data | error | disconnected

record SSHResponse =
  res_type :: response_type
  res_data :: "string option"
  res_error :: "string option"
  res_sessionId :: "string option"

record SSHSession =
  session_id :: string
  connection :: handle
  shell :: "channel option"
  isConnected :: bool

text \<open>A thrown value is an \<open>Error\<close> with its message, or some other value.\<close>

datatype thrown = Error string | NonError

text \<open>\<open>error instanceof Error ? error.message : dflt\<close>\<close>

definition error_message :: "thrown \<Rightarrow> string \<Rightarrow> string" where
  "error_message x dflt = (case x of Error m \<Rightarrow> m | NonError \<Rightarrow> dflt)"

section \<open>The outside world\<close>

text \<open>
  The options object handed to \<open>ssh.connect\<close> (the earlier manager passes no keep-alive
  options), and the one handed to \<open>requestShell\<close>.
\<close>

record connect_options = SSHConnectionConfig +
  readyTimeout :: int
  tryKeyboard :: bool
  keepaliveInterval :: "int option"
  keepaliveCountMax :: "int option"

record shell_options =
  cols :: int
  rows :: int
  term_type :: string

datatype ws_state = CONNECTING | OPEN | CLOSING | CLOSED

datatype level = LWarn | LError

text \<open>
  Everything a handler does to the outside, in the order it does it. \<open>Emit r\<close> is a call
  \<open>sendResponse(r)\<close> (the response handed to the emitter); \<open>Frame r\<close> is the frame that
  \<open>ws.send\<close> put on the transport. A provider call is recorded when it is made, whether
  it returns or raises. Of the console output the \<open>console.warn\<close> and \<open>console.error\<close>
  lines are kept, with the fixed part of their text; the \<open>console.log\<close> progress lines
  are left out.
\<close>

datatype effect =
    Emit SSHResponse
  | Frame SSHResponse
  | Connect connect_options
  | RequestShell handle shell_options
  | ShellWrite channel string
  | ShellSetWindow channel int int
  | ShellEnd channel
  | Dispose handle
  | Log level string

text \<open>
  What the outside answers during one handler run: the two ingredients of
  \<open>generateSessionId\<close>, and for each provider or transport call whether it returns
  (\<open>None\<close>, or \<open>Inr\<close> with the result) or raises.
\<close>

record env =
  math_random_text :: string
  date_now :: nat
  ssh_connect :: "connect_options \<Rightarrow> thrown + handle"
  requestShell :: "handle \<Rightarrow> shell_options \<Rightarrow> thrown + channel"
  shell_write :: "channel \<Rightarrow> string \<Rightarrow> thrown option"
  shell_setWindow :: "channel \<Rightarrow> int \<Rightarrow> int \<Rightarrow> thrown option"
  shell_end :: "channel \<Rightarrow> thrown option"
  dispose :: "handle \<Rightarrow> thrown option"
  ws_send :: "SSHResponse \<Rightarrow> thrown option"

text \<open>The process-wide state: the manager's \<open>sessions\<close> map and the effects so far.\<close>

record world =
  sessions :: "string \<rightharpoonup> SSHSession"
  trace :: "effect list"

text \<open>The per-connection state: the closure variable \<open>sessionId\<close> and \<open>ws.readyState\<close>.\<close>

record bridge =
  sessionId :: "string option"
  readyState :: ws_state

definition eff :: "effect \<Rightarrow> world \<Rightarrow> world" where
  "eff x w = w\<lparr>trace := trace w @ [x]\<rparr>"

section \<open>SSHManager (ssh-manager.ts)\<close>

definition connect_options_of :: "SSHConnectionConfig \<Rightarrow> connect_options" where
  "connect_options_of config =
     \<lparr>host = host config,
      port = (if port config = 0 then 22 else port config),
      username = username config,
      password = password config,
      privateKey = privateKey config,
      passphrase = passphrase config,
      readyTimeout = 30000,
      tryKeyboard = True,
      keepaliveInterval = Some 15000,
      keepaliveCountMax = Some 4\<rparr>"

text \<open>
  \<open>createSession\<close>: the listeners on \<open>ssh.connection\<close> attach to nothing before the
  connection exists (\<open>?.\<close>). A failure of \<open>ssh.connect\<close> is re-thrown as a new \<open>Error\<close>;
  on success the session is stored under the identifier, replacing what was there.
\<close>

definition createSession ::
  "env \<Rightarrow> string \<Rightarrow> SSHConnectionConfig \<Rightarrow> world \<Rightarrow> (thrown + SSHSession) \<times> world" where
  "createSession e sid config w =
     (let opts = connect_options_of config;
          w1 = eff (Connect opts) w
      in case ssh_connect e opts of
           Inl x \<Rightarrow>
             (Inl (Error (''SSH connection failed: '' @ error_message x ''Unknown error'')), w1)
         | Inr h \<Rightarrow>
             (let session = \<lparr>session_id = sid, connection = h, shell = None, isConnected = True\<rparr>
              in (Inr session, w1\<lparr>sessions := (sessions w1)(sid \<mapsto> session)\<rparr>)))"

definition createShell ::
  "env \<Rightarrow> string \<Rightarrow> int \<Rightarrow> int \<Rightarrow> world \<Rightarrow> (thrown + channel) \<times> world" where
  "createShell e sid c r w =
     (case sessions w sid of
        None \<Rightarrow> (Inl (Error ''Session not found or not connected''), w)
      | Some session \<Rightarrow>
          if \<not> isConnected session
          then (Inl (Error ''Session not found or not connected''), w)
          else
            (let opts = \<lparr>cols = c, rows = r, term_type = ''xterm-256color''\<rparr>;
                 w1 = eff (RequestShell (connection session) opts) w
             in case requestShell e (connection session) opts of
                  Inl x \<Rightarrow>
                    (Inl (Error (''Failed to create shell: '' @ error_message x ''Unknown error'')),
                     eff (Log LError ''Failed to create shell for session'') w1)
                | Inr ch \<Rightarrow>
                    (Inr ch,
                     w1\<lparr>sessions := (sessions w1)(sid \<mapsto> session\<lparr>shell := Some ch\<rparr>)\<rparr>)))"

text \<open>
  \<open>resizeShell\<close> raises when the session or its shell is missing; a failure of
  \<open>setWindow\<close> is caught and logged inside.
\<close>

definition resizeShell ::
  "env \<Rightarrow> string \<Rightarrow> int \<Rightarrow> int \<Rightarrow> world \<Rightarrow> thrown option \<times> world" where
  "resizeShell e sid c r w =
     (case sessions w sid of
        None \<Rightarrow> (Some (Error ''Session or shell not found''), w)
      | Some session \<Rightarrow>
          (case shell session of
             None \<Rightarrow> (Some (Error ''Session or shell not found''), w)
           | Some ch \<Rightarrow>
               (let w1 = eff (ShellSetWindow ch r c) w
                in case shell_setWindow e ch r c of
                     None \<Rightarrow> (None, w1)
                   | Some x \<Rightarrow> (None, eff (Log LError ''Failed to resize shell:'') w1))))"

text \<open>
  The \<open>try\<close> block of \<open>closeSession\<close>: end the shell if there is one, dispose the
  connection, clear the flag. It stops at the first call that raises.
\<close>

definition closeSession_try ::
  "env \<Rightarrow> string \<Rightarrow> SSHSession \<Rightarrow> world \<Rightarrow> thrown option \<times> world" where
  "closeSession_try e sid session w =
     (let (x1, w1) =
            (case shell session of
               None \<Rightarrow> (None, w)
             | Some ch \<Rightarrow> (shell_end e ch, eff (ShellEnd ch) w))
      in case x1 of
           Some x \<Rightarrow> (Some x, w1)
         | None \<Rightarrow>
             (let w2 = eff (Dispose (connection session)) w1
              in case dispose e (connection session) of
                   Some x \<Rightarrow> (Some x, w2)
                 | None \<Rightarrow>
                     (None,
                      w2\<lparr>sessions := (sessions w2)(sid \<mapsto> session\<lparr>isConnected := False\<rparr>)\<rparr>)))"

text \<open>
  \<open>closeSession\<close>: nothing for an absent identifier; otherwise the \<open>try\<close> block, the
  \<open>catch\<close> that logs, and the \<open>finally\<close> that deletes the entry. The first component is
  what the call raises to its caller.
\<close>

definition closeSession :: "env \<Rightarrow> string \<Rightarrow> world \<Rightarrow> thrown option \<times> world" where
  "closeSession e sid w =
     (case sessions w sid of
        None \<Rightarrow> (None, w)
      | Some session \<Rightarrow>
          (let (x, w1) = closeSession_try e sid session w;
               w2 = (case x of
                       None \<Rightarrow> w1
                     | Some _ \<Rightarrow> eff (Log LError ''Error closing session:'') w1)
           in (None, w2\<lparr>sessions := (sessions w2)(sid := None)\<rparr>)))"

definition getSession :: "world \<Rightarrow> string \<Rightarrow> SSHSession option" where
  "getSession w sid = sessions w sid"

section \<open>The connection bridge (the \<open>wss.on('connection')\<close> handler)\<close>

text \<open>\<open>Number.prototype.toString(36)\<close> on a non-negative integer.\<close>

definition digit36 :: "nat \<Rightarrow> char" where
  "digit36 d = ''0123456789abcdefghijklmnopqrstuvwxyz'' ! d"

function toString36 :: "nat \<Rightarrow> string" where
  "toString36 n = (if n < 36 then [digit36 n] else toString36 (n div 36) @ [digit36 (n mod 36)])"
  by pat_completeness auto
termination
  by (relation "measure (\<lambda>n. n)") auto

declare toString36.simps [simp del]

text \<open>
  \<open>Math.random().toString(36).substring(2) + Date.now().toString(36)\<close>; the text of the
  random number comes from the environment.
\<close>

definition generateSessionId :: "env \<Rightarrow> string" where
  "generateSessionId e = drop 2 (math_random_text e) @ toString36 (date_now e)"

text \<open>\<open>if (sessionId)\<close>: \<open>null\<close> and the empty string are falsy.\<close>

definition bound_id :: "bridge \<Rightarrow> string option" where
  "bound_id b =
     (case sessionId b of
        None \<Rightarrow> None
      | Some s \<Rightarrow> if s = [] then None else Some s)"

definition error_response :: "string \<Rightarrow> SSHResponse" where
  "error_response m =
     \<lparr>res_type = error, res_data = None, res_error = Some m, res_sessionId = None\<rparr>"

definition disconnected_response :: SSHResponse where
  "disconnected_response =
     \<lparr>res_type = disconnected, res_data = None, res_error = None, res_sessionId = None\<rparr>"

definition connected_response :: "string \<Rightarrow> SSHResponse" where
  "connected_response sid =
     \<lparr>res_type = connected, res_data = None, res_error = None, res_sessionId = Some sid\<rparr>"

definition data_response :: "string \<Rightarrow> SSHResponse" where
  "data_response d =
     \<lparr>res_type = data, res_data = Some d, res_error = None, res_sessionId = None\<rparr>"

text \<open>
  \<open>sendResponse\<close>: the frame goes out only on an open transport; a \<open>ws.send\<close> that raises
  is caught and logged.
\<close>

definition sendResponse :: "env \<Rightarrow> bridge \<Rightarrow> SSHResponse \<Rightarrow> world \<Rightarrow> world" where
  "sendResponse e b response w =
     (let w1 = eff (Emit response) w
      in if readyState b = OPEN
         then (case ws_send e response of
                 None \<Rightarrow> eff (Frame response) w1
               | Some x \<Rightarrow> eff (Log LError ''Failed to send response'') w1)
         else eff (Log LWarn ''Cannot send response: WebSocket not open'') w1)"

text \<open>
  An inbound frame after \<open>JSON.parse\<close>: the parse raises, or yields \<open>null\<close> (reading
  \<open>message.type\<close> then raises), or yields a value whose fields the handler reads.
\<close>

datatype frame = Unparseable | ParsedNull | Parsed SSHMessage

text \<open>
  \<open>case 'connect'\<close>. The identifier is assigned to \<open>sessionId\<close> before the session is
  created; the \<open>catch\<close> reports the failure. Every failure reaching the \<open>catch\<close> is an
  \<open>Error\<close> made by the manager.
\<close>

definition connect_catch :: "env \<Rightarrow> bridge \<Rightarrow> thrown \<Rightarrow> world \<Rightarrow> world" where
  "connect_catch e b x w =
     sendResponse e b (error_response (error_message x ''Connection failed''))
       (eff (Log LError ''SSH connection error:'') w)"

definition handle_connect :: "env \<Rightarrow> SSHMessage \<Rightarrow> bridge \<Rightarrow> world \<Rightarrow> bridge \<times> world" where
  "handle_connect e message b w =
     (case msg_config message of
        None \<Rightarrow> (b, sendResponse e b (error_response ''SSH configuration required'') w)
      | Some config \<Rightarrow>
          (let sid = generateSessionId e;
               b1 = b\<lparr>sessionId := Some sid\<rparr>
           in case createSession e sid config w of
                (Inl x, w1) \<Rightarrow> (b1, connect_catch e b1 x w1)
              | (Inr session, w1) \<Rightarrow>
                  (case createShell e sid 80 24 w1 of
                     (Inl x, w2) \<Rightarrow> (b1, connect_catch e b1 x w2)
                   | (Inr ch, w2) \<Rightarrow> (b1, sendResponse e b1 (connected_response sid) w2))))"

definition handle_command :: "env \<Rightarrow> SSHMessage \<Rightarrow> bridge \<Rightarrow> world \<Rightarrow> bridge \<times> world" where
  "handle_command e message b w =
     (case bound_id b of
        None \<Rightarrow> (b, sendResponse e b (error_response ''No active session'') w)
      | Some sid \<Rightarrow>
          (case msg_command message of
             None \<Rightarrow> (b, sendResponse e b (error_response ''Command required'') w)
           | Some command \<Rightarrow>
               if command = []
               then (b, sendResponse e b (error_response ''Command required'') w)
               else
                 (case getSession w sid of
                    None \<Rightarrow> (b, sendResponse e b (error_response ''Shell not available'') w)
                  | Some session \<Rightarrow>
                      (case shell session of
                         None \<Rightarrow> (b, sendResponse e b (error_response ''Shell not available'') w)
                       | Some ch \<Rightarrow>
                           (let w1 = eff (ShellWrite ch command) w
                            in case shell_write e ch command of
                                 None \<Rightarrow> (b, w1)
                               | Some x \<Rightarrow>
                                   (b, sendResponse e b
                                         (error_response (error_message x ''Command failed''))
                                         (eff (Log LError ''Command execution error:'') w1)))))))"

text \<open>\<open>message.cols || 80\<close>: an absent or zero value gives the default.\<close>

definition or_default :: "int option \<Rightarrow> int \<Rightarrow> int" where
  "or_default v d = (case v of None \<Rightarrow> d | Some n \<Rightarrow> if n = 0 then d else n)"

definition handle_resize :: "env \<Rightarrow> SSHMessage \<Rightarrow> bridge \<Rightarrow> world \<Rightarrow> bridge \<times> world" where
  "handle_resize e message b w =
     (case bound_id b of
        None \<Rightarrow> (b, sendResponse e b (error_response ''No active session'') w)
      | Some sid \<Rightarrow>
          (case resizeShell e sid (or_default (msg_cols message) 80)
                  (or_default (msg_rows message) 24) w of
             (None, w1) \<Rightarrow> (b, w1)
           | (Some x, w1) \<Rightarrow> (b, eff (Log LError ''Resize error:'') w1)))"

definition handle_disconnect :: "env \<Rightarrow> bridge \<Rightarrow> world \<Rightarrow> bridge \<times> world" where
  "handle_disconnect e b w =
     (case bound_id b of
        None \<Rightarrow> (b, sendResponse e b disconnected_response w)
      | Some sid \<Rightarrow>
          (let w1 = snd (closeSession e sid w);
               b1 = b\<lparr>sessionId := None\<rparr>
           in (b1, sendResponse e b1 disconnected_response w1)))"

text \<open>
  \<open>ws.on('message')\<close>: the \<open>switch\<close> over \<open>message.type\<close>, inside the \<open>try\<close> whose \<open>catch\<close>
  answers a frame that did not parse.
\<close>

definition on_message :: "env \<Rightarrow> frame \<Rightarrow> bridge \<Rightarrow> world \<Rightarrow> bridge \<times> world" where
  "on_message e f b w =
     (case f of
        Parsed message \<Rightarrow>
          if msg_type message = ''connect'' then handle_connect e message b w
          else if msg_type message = ''command'' then handle_command e message b w
          else if msg_type message = ''resize'' then handle_resize e message b w
          else if msg_type message = ''disconnect'' then handle_disconnect e b w
          else (b, sendResponse e b (error_response ''Unknown message type'') w)
      | _ \<Rightarrow>
          (b, sendResponse e b (error_response ''Invalid message format'')
                (eff (Log LError ''Message parsing error:'') w)))"

text \<open>
  The exit code that comes with the close event of a shell channel. The listener declares
  it \<open>number | null\<close>; the provider passes \<open>undefined\<close> when the channel closed without an
  exit status.
\<close>

datatype exit_code = CodeUndefined | CodeNull | CodeNumber int

text \<open>
  The listeners on the shell channel, in the order they were attached: the manager's
  logging listener (attached in \<open>createShell\<close>), then the bridge's. They read the closure
  variable \<open>sessionId\<close> as it is when the event fires, whichever shell of this connection
  the event comes from. The test on the exit code is \<open>code !== 0 && code !== null\<close>.
\<close>

definition shell_on_data :: "env \<Rightarrow> string \<Rightarrow> bridge \<Rightarrow> world \<Rightarrow> bridge \<times> world" where
  "shell_on_data e chunk b w =
     (if readyState b = OPEN
      then (b, sendResponse e b (data_response chunk) w)
      else (b, eff (Log LWarn ''WebSocket not open when trying to send data'') w))"

definition shell_on_close :: "env \<Rightarrow> exit_code \<Rightarrow> bridge \<Rightarrow> world \<Rightarrow> bridge \<times> world" where
  "shell_on_close e code b w =
     (let w1 = eff (Log LWarn ''Shell closed for session'') w
      in if code \<noteq> CodeNumber 0 \<and> code \<noteq> CodeNull
         then
           (let w2 = sendResponse e b disconnected_response w1
            in case bound_id b of
                 None \<Rightarrow> (b, w2)
               | Some sid \<Rightarrow> (b, snd (closeSession e sid w2)))
         else (b, w1))"

definition shell_on_error :: "env \<Rightarrow> string \<Rightarrow> bridge \<Rightarrow> world \<Rightarrow> bridge \<times> world" where
  "shell_on_error e m b w =
     (let w1 = eff (Log LError ''SSH stream error for session'') w;
          w2 = eff (Log LError ''Shell error for session'') w1;
          w3 = sendResponse e b (error_response m) w2
      in case bound_id b of
           None \<Rightarrow> (b, w3)
         | Some sid \<Rightarrow> (b, snd (closeSession e sid w3)))"

section \<open>The earlier manager and the earlier bridge (index.ts)\<close>

text \<open>
  The earlier \<open>createSession\<close> and \<open>createShell\<close>: no keep-alive options, and no log line
  when \<open>requestShell\<close> raises. The earlier manager attaches no listener to the shell.
\<close>

definition connect_options_of_earlier :: "SSHConnectionConfig \<Rightarrow> connect_options" where
  "connect_options_of_earlier config =
     \<lparr>host = host config,
      port = (if port config = 0 then 22 else port config),
      username = username config,
      password = password config,
      privateKey = privateKey config,
      passphrase = passphrase config,
      readyTimeout = 30000,
      tryKeyboard = True,
      keepaliveInterval = None,
      keepaliveCountMax = None\<rparr>"

definition createSession_earlier ::
  "env \<Rightarrow> string \<Rightarrow> SSHConnectionConfig \<Rightarrow> world \<Rightarrow> (thrown + SSHSession) \<times> world" where
  "createSession_earlier e sid config w =
     (let opts = connect_options_of_earlier config;
          w1 = eff (Connect opts) w
      in case ssh_connect e opts of
           Inl x \<Rightarrow>
             (Inl (Error (''SSH connection failed: '' @ error_message x ''Unknown error'')), w1)
         | Inr h \<Rightarrow>
             (let session = \<lparr>session_id = sid, connection = h, shell = None, isConnected = True\<rparr>
              in (Inr session, w1\<lparr>sessions := (sessions w1)(sid \<mapsto> session)\<rparr>)))"

definition createShell_earlier ::
  "env \<Rightarrow> string \<Rightarrow> int \<Rightarrow> int \<Rightarrow> world \<Rightarrow> (thrown + channel) \<times> world" where
  "createShell_earlier e sid c r w =
     (case sessions w sid of
        None \<Rightarrow> (Inl (Error ''Session not found or not connected''), w)
      | Some session \<Rightarrow>
          if \<not> isConnected session
          then (Inl (Error ''Session not found or not connected''), w)
          else
            (let opts = \<lparr>cols = c, rows = r, term_type = ''xterm-256color''\<rparr>;
                 w1 = eff (RequestShell (connection session) opts) w
             in case requestShell e (connection session) opts of
                  Inl x \<Rightarrow>
                    (Inl (Error (''Failed to create shell: '' @ error_message x ''Unknown error'')),
                     w1)
                | Inr ch \<Rightarrow>
                    (Inr ch,
                     w1\<lparr>sessions := (sessions w1)(sid \<mapsto> session\<lparr>shell := Some ch\<rparr>)\<rparr>)))"

text \<open>
  The earlier \<open>sendResponse\<close> has no \<open>try\<close> around \<open>ws.send\<close>: the first component is what
  the call raises to its caller. The handlers below return what they raise in the same
  way, before the bridge and the world.
\<close>

definition sendResponse_earlier ::
  "env \<Rightarrow> bridge \<Rightarrow> SSHResponse \<Rightarrow> world \<Rightarrow> thrown option \<times> world" where
  "sendResponse_earlier e b response w =
     (let w1 = eff (Emit response) w
      in if readyState b = OPEN
         then (case ws_send e response of
                 None \<Rightarrow> (None, eff (Frame response) w1)
               | Some x \<Rightarrow> (Some x, w1))
         else (None, w1))"

text \<open>\<open>sendResponse({ type: 'connected' })\<close>: the earlier response names no session.\<close>

definition connected_response_earlier :: SSHResponse where
  "connected_response_earlier =
     \<lparr>res_type = connected, res_data = None, res_error = None, res_sessionId = None\<rparr>"

text \<open>
  The earlier \<open>case 'connect'\<close>. A raise of \<open>sendResponse\<close> inside the \<open>try\<close> reaches the
  \<open>catch\<close> like any other; a raise inside the \<open>catch\<close> leaves the case.
\<close>

definition connect_catch_earlier ::
  "env \<Rightarrow> bridge \<Rightarrow> thrown \<Rightarrow> world \<Rightarrow> thrown option \<times> bridge \<times> world" where
  "connect_catch_earlier e b x w =
     (case sendResponse_earlier e b (error_response (error_message x ''Connection failed''))
             (eff (Log LError ''SSH connection error:'') w) of
        (y, w1) \<Rightarrow> (y, b, w1))"

definition handle_connect_earlier ::
  "env \<Rightarrow> SSHMessage \<Rightarrow> bridge \<Rightarrow> world \<Rightarrow> thrown option \<times> bridge \<times> world" where
  "handle_connect_earlier e message b w =
     (case msg_config message of
        None \<Rightarrow>
          (case sendResponse_earlier e b (error_response ''SSH configuration required'') w of
             (y, w1) \<Rightarrow> (y, b, w1))
      | Some config \<Rightarrow>
          (let sid = generateSessionId e;
               b1 = b\<lparr>sessionId := Some sid\<rparr>
           in case createSession_earlier e sid config w of
                (Inl x, w1) \<Rightarrow> connect_catch_earlier e b1 x w1
              | (Inr session, w1) \<Rightarrow>
                  (case createShell_earlier e sid 80 24 w1 of
                     (Inl x, w2) \<Rightarrow> connect_catch_earlier e b1 x w2
                   | (Inr ch, w2) \<Rightarrow>
                       (case sendResponse_earlier e b1 connected_response_earlier w2 of
                          (None, w3) \<Rightarrow> (None, b1, w3)
                        | (Some x, w3) \<Rightarrow> connect_catch_earlier e b1 x w3))))"

text \<open>
  The earlier listeners on the shell channel. The close listener takes no argument: it
  answers \<open>disconnected\<close> whatever the exit code and closes the bound session. The error
  listener answers the error and leaves the session alone. A raise of \<open>sendResponse\<close> ends
  the listener.
\<close>

definition shell_on_close_earlier ::
  "env \<Rightarrow> exit_code \<Rightarrow> bridge \<Rightarrow> world \<Rightarrow> thrown option \<times> bridge \<times> world" where
  "shell_on_close_earlier e code b w =
     (case sendResponse_earlier e b disconnected_response w of
        (Some x, w1) \<Rightarrow> (Some x, b, w1)
      | (None, w1) \<Rightarrow>
          (case bound_id b of
             None \<Rightarrow> (None, b, w1)
           | Some sid \<Rightarrow> (None, b, snd (closeSession e sid w1))))"

definition shell_on_error_earlier ::
  "env \<Rightarrow> string \<Rightarrow> bridge \<Rightarrow> world \<Rightarrow> thrown option \<times> bridge \<times> world" where
  "shell_on_error_earlier e m b w =
     (case sendResponse_earlier e b (error_response m)
             (eff (Log LError ''Shell error for session'') w) of
        (y, w1) \<Rightarrow> (y, b, w1))"

section \<open>Reading the effects of a handler run\<close>

definition new_effects :: "world \<Rightarrow> world \<Rightarrow> effect list" where
  "new_effects w w' = drop (length (trace w)) (trace w')"

fun emitted :: "effect list \<Rightarrow> SSHResponse list" where
  "emitted [] = []"
| "emitted (Emit r # xs) = r # emitted xs"
| "emitted (_ # xs) = emitted xs"

fun frames :: "effect list \<Rightarrow> SSHResponse list" where
  "frames [] = []"
| "frames (Frame r # xs) = r # frames xs"
| "frames (_ # xs) = frames xs"

fun shell_ends :: "effect list \<Rightarrow> channel list" where
  "shell_ends [] = []"
| "shell_ends (ShellEnd ch # xs) = ch # shell_ends xs"
| "shell_ends (_ # xs) = shell_ends xs"

fun disposals :: "effect list \<Rightarrow> handle list" where
  "disposals [] = []"
| "disposals (Dispose h # xs) = h # disposals xs"
| "disposals (_ # xs) = disposals xs"

fun shell_writes :: "effect list \<Rightarrow> (channel \<times> string) list" where
  "shell_writes [] = []"
| "shell_writes (ShellWrite ch s # xs) = (ch, s) # shell_writes xs"
| "shell_writes (_ # xs) = shell_writes xs"

fun error_logs :: "effect list \<Rightarrow> string list" where
  "error_logs [] = []"
| "error_logs (Log LError s # xs) = s # error_logs xs"
| "error_logs (_ # xs) = error_logs xs"

text \<open>The frames that reach the transport when the responses \<open>rs\<close> are emitted.\<close>

definition delivered :: "env \<Rightarrow> bridge \<Rightarrow> SSHResponse list \<Rightarrow> SSHResponse list" where
  "delivered e b rs =
     (if readyState b = OPEN then filter (\<lambda>r. ws_send e r = None) rs else [])"

text \<open>What one call of \<open>sendResponse\<close> appends to the trace, and what \<open>closeSession\<close> does.\<close>

definition sendResponse_effects :: "env \<Rightarrow> bridge \<Rightarrow> SSHResponse \<Rightarrow> effect list" where
  "sendResponse_effects e b r =
     Emit r #
     (if readyState b = OPEN
      then (case ws_send e r of
              None \<Rightarrow> [Frame r]
            | Some x \<Rightarrow> [Log LError ''Failed to send response''])
      else [Log LWarn ''Cannot send response: WebSocket not open''])"

definition closeSession_effects :: "env \<Rightarrow> SSHSession option \<Rightarrow> effect list" where
  "closeSession_effects e so =
     (case so of
        None \<Rightarrow> []
      | Some s \<Rightarrow>
          (case shell s of None \<Rightarrow> [] | Some ch \<Rightarrow> [ShellEnd ch]) @
          (if (case shell s of None \<Rightarrow> False | Some ch \<Rightarrow> shell_end e ch \<noteq> None)
           then [Log LError ''Error closing session:'']
           else Dispose (connection s) #
                (case dispose e (connection s) of
                   None \<Rightarrow> []
                 | Some x \<Rightarrow> [Log LError ''Error closing session:''])))"

text \<open>
  The two ways a \<open>connect\<close> fails: \<open>ssh.connect\<close> raises, or it returns a handle on which
  \<open>requestShell\<close> (with the bridge's 80 by 24) raises.
\<close>

definition establishment_fails :: "env \<Rightarrow> SSHConnectionConfig \<Rightarrow> bool" where
  "establishment_fails e config = isl (ssh_connect e (connect_options_of config))"

definition shell_open_fails :: "env \<Rightarrow> SSHConnectionConfig \<Rightarrow> bool" where
  "shell_open_fails e config =
     (case ssh_connect e (connect_options_of config) of
        Inl x \<Rightarrow> False
      | Inr h \<Rightarrow> isl (requestShell e h \<lparr>cols = 80, rows = 24, term_type = ''xterm-256color''\<rparr>))"

section \<open>Sample values\<close>

text \<open>
  A provider that accepts everything, a bridge in the active state on an open transport,
  and a registry holding that bridge's session with its shell.
\<close>

definition env0 :: env where
  "env0 =
     \<lparr>math_random_text = ''0.k3x9'',
      date_now = 1700000000000,
      ssh_connect = (\<lambda>opts. Inr 1),
      requestShell = (\<lambda>h opts. Inr 2),
      shell_write = (\<lambda>ch s. None),
      shell_setWindow = (\<lambda>ch r c. None),
      shell_end = (\<lambda>ch. None),
      dispose = (\<lambda>h. None),
      ws_send = (\<lambda>r. None)\<rparr>"

definition session0 :: SSHSession where
  "session0 = \<lparr>session_id = ''s1'', connection = 1, shell = Some 2, isConnected = True\<rparr>"

definition world0 :: world where
  "world0 = \<lparr>sessions = [''s1'' \<mapsto> session0], trace = []\<rparr>"

definition active0 :: bridge where
  "active0 = \<lparr>sessionId = Some ''s1'', readyState = OPEN\<rparr>"

definition idle0 :: bridge where
  "idle0 = \<lparr>sessionId = None, readyState = OPEN\<rparr>"

definition config0 :: SSHConnectionConfig where
  "config0 =
     \<lparr>host = ''h'', port = 22, username = ''u'', password = Some ''p'',
      privateKey = None, passphrase = None\<rparr>"

definition message0 :: "string \<Rightarrow> SSHMessage" where
  "message0 t =
     \<lparr>msg_type = t, msg_config = None, msg_command = None, msg_cols = None, msg_rows = None\<rparr>"

definition connect0 :: SSHMessage where
  "connect0 = (message0 ''connect'')\<lparr>msg_config := Some config0\<rparr>"

definition empty0 :: world where
  "empty0 = \<lparr>sessions = Map.empty, trace = []\<rparr>"

text \<open>Providers that refuse the credentials, refuse the shell, or raise on a call.\<close>

definition env_bad_auth :: env where
  "env_bad_auth = env0\<lparr>ssh_connect := (\<lambda>opts. Inl (Error ''bad credentials''))\<rparr>"

definition env_no_shell :: env where
  "env_no_shell = env0\<lparr>requestShell := (\<lambda>h opts. Inl (Error ''denied''))\<rparr>"

definition env_end_raises :: env where
  "env_end_raises = env0\<lparr>shell_end := (\<lambda>ch. Some (Error ''stream destroyed''))\<rparr>"

definition env_dispose_raises :: env where
  "env_dispose_raises = env0\<lparr>dispose := (\<lambda>h. Some (Error ''socket gone''))\<rparr>"

definition env_resize_raises :: env where
  "env_resize_raises = env0\<lparr>shell_setWindow := (\<lambda>ch r c. Some (Error ''not open''))\<rparr>"

text \<open>
  A second \<open>connect\<close> on the same transport, a millisecond later and answered with another
  handle and another shell: the state after the first, and the state after both.
\<close>

definition env1 :: env where
  "env1 =
     env0\<lparr>date_now := 1700000000001,
          ssh_connect := (\<lambda>opts. Inr 3),
          requestShell := (\<lambda>h opts. Inr 4)\<rparr>"

definition connected_once :: "bridge \<times> world" where
  "connected_once = on_message env0 (Parsed connect0) idle0 empty0"

definition connected_twice :: "bridge \<times> world" where
  "connected_twice =
     on_message env1 (Parsed connect0) (fst connected_once) (snd connected_once)"

section \<open>Basic facts\<close>

lemma sessions_eff [simp]: "sessions (eff x w) = sessions w"
  by (simp add: eff_def)

lemma trace_eff [simp]: "trace (eff x w) = trace w @ [x]"
  by (simp add: eff_def)

lemma new_effects_trace: "trace w' = trace w @ xs \<Longrightarrow> new_effects w w' = xs"
  by (simp add: new_effects_def)

lemma emitted_append [simp]: "emitted (xs @ ys) = emitted xs @ emitted ys"
  by (induction xs rule: emitted.induct) simp_all

lemma frames_append [simp]: "frames (xs @ ys) = frames xs @ frames ys"
  by (induction xs rule: frames.induct) simp_all

lemma shell_ends_append [simp]: "shell_ends (xs @ ys) = shell_ends xs @ shell_ends ys"
  by (induction xs rule: shell_ends.induct) simp_all

lemma disposals_append [simp]: "disposals (xs @ ys) = disposals xs @ disposals ys"
  by (induction xs rule: disposals.induct) simp_all

lemma shell_writes_append [simp]: "shell_writes (xs @ ys) = shell_writes xs @ shell_writes ys"
  by (induction xs rule: shell_writes.induct) simp_all

lemma error_logs_append [simp]: "error_logs (xs @ ys) = error_logs xs @ error_logs ys"
  by (induction xs rule: error_logs.induct) simp_all

lemma trace_sendResponse: "trace (sendResponse e b r w) = trace w @ sendResponse_effects e b r"
  by (simp add: sendResponse_def sendResponse_effects_def Let_def split: option.splits)

lemma sessions_sendResponse [simp]: "sessions (sendResponse e b r w) = sessions w"
  by (simp add: sendResponse_def Let_def split: option.splits)

lemma emitted_sendResponse_effects [simp]: "emitted (sendResponse_effects e b r) = [r]"
  by (simp add: sendResponse_effects_def split: option.splits)

lemma frames_sendResponse_effects [simp]:
  "frames (sendResponse_effects e b r) = delivered e b [r]"
  by (simp add: sendResponse_effects_def delivered_def split: option.splits)

lemma shell_writes_sendResponse_effects [simp]:
  "shell_writes (sendResponse_effects e b r) = []"
  by (simp add: sendResponse_effects_def split: option.splits)

lemma trace_closeSession:
  "trace (snd (closeSession e sid w)) = trace w @ closeSession_effects e (sessions w sid)"
  by (simp add: closeSession_def closeSession_try_def closeSession_effects_def Let_def
           split: option.splits prod.splits)

lemma sessions_closeSession:
  "sessions (snd (closeSession e sid w)) = (sessions w)(sid := None)"
  by (auto simp: closeSession_def closeSession_try_def Let_def
           split: option.splits prod.splits)

lemma emitted_closeSession_effects [simp]: "emitted (closeSession_effects e so) = []"
  by (simp add: closeSession_effects_def split: option.splits)

lemma frames_closeSession_effects [simp]: "frames (closeSession_effects e so) = []"
  by (simp add: closeSession_effects_def split: option.splits)

lemma on_message_connect:
  "msg_type m = ''connect'' \<Longrightarrow> on_message e (Parsed m) b w = handle_connect e m b w"
  by (simp add: on_message_def)

lemma on_message_command:
  "msg_type m = ''command'' \<Longrightarrow> on_message e (Parsed m) b w = handle_command e m b w"
  by (simp add: on_message_def)

lemma on_message_resize:
  "msg_type m = ''resize'' \<Longrightarrow> on_message e (Parsed m) b w = handle_resize e m b w"
  by (simp add: on_message_def)

lemma on_message_disconnect:
  "msg_type m = ''disconnect'' \<Longrightarrow> on_message e (Parsed m) b w = handle_disconnect e b w"
  by (simp add: on_message_def)

lemma toString36_nonempty: "toString36 n \<noteq> []"
  by (subst toString36.simps) simp

lemma generateSessionId_nonempty [simp]: "generateSessionId e \<noteq> []"
  by (simp add: generateSessionId_def toString36_nonempty)

lemma delivered_sessionId [simp]: "delivered e (b\<lparr>sessionId := x\<rparr>) rs = delivered e b rs"
  by (simp add: delivered_def)

lemma sendResponse_effects_sessionId [simp]:
  "sendResponse_effects e (b\<lparr>sessionId := x\<rparr>) r = sendResponse_effects e b r"
  by (simp add: sendResponse_effects_def)

lemma bound_id_Some [simp]: "s \<noteq> [] \<Longrightarrow> bound_id (b\<lparr>sessionId := Some s\<rparr>) = Some s"
  by (simp add: bound_id_def)

lemma new_effects_trans:
  "trace w1 = trace w @ xs \<Longrightarrow> trace w2 = trace w1 @ ys \<Longrightarrow> new_effects w w2 = xs @ ys"
  by (simp add: new_effects_def)

lemma closeSession_absent: "sessions w sid = None \<Longrightarrow> closeSession e sid w = (None, w)"
  by (simp add: closeSession_def)

lemma handle_disconnect_bound:
  "bound_id b = Some sid \<Longrightarrow>
   handle_disconnect e b w =
     (b\<lparr>sessionId := None\<rparr>,
      sendResponse e (b\<lparr>sessionId := None\<rparr>) disconnected_response (snd (closeSession e sid w)))"
  by (simp add: handle_disconnect_def Let_def)

section \<open>The \<open>connect\<close> message, when the provider accepts\<close>

text \<open>
  The later bridge: one \<open>connected\<close> response with the generated identifier, the new session
  registered under it with its handle and its shell, and the bridge bound to it.
\<close>

lemma handle_connect_success:
  "msg_type m = ''connect'' \<Longrightarrow> msg_config m = Some config \<Longrightarrow>
   ssh_connect e (connect_options_of config) = Inr h \<Longrightarrow>
   requestShell e h \<lparr>cols = 80, rows = 24, term_type = ''xterm-256color''\<rparr> = Inr ch \<Longrightarrow>
   emitted (new_effects w (snd (on_message e (Parsed m) b w)))
     = [connected_response (generateSessionId e)]
   \<and> frames (new_effects w (snd (on_message e (Parsed m) b w)))
       = delivered e b [connected_response (generateSessionId e)]
   \<and> res_sessionId (connected_response (generateSessionId e)) = Some (generateSessionId e)
   \<and> sessions (snd (on_message e (Parsed m) b w))
       = (sessions w)(generateSessionId e \<mapsto>
            \<lparr>session_id = generateSessionId e, connection = h, shell = Some ch,
             isConnected = True\<rparr>)
   \<and> fst (on_message e (Parsed m) b w) = b\<lparr>sessionId := Some (generateSessionId e)\<rparr>
   \<and> generateSessionId e \<noteq> []"
  by (simp add: on_message_connect handle_connect_def createSession_def createShell_def Let_def
         new_effects_def trace_sendResponse connected_response_def)

lemma generateSessionId_env0: "generateSessionId env0 = ''k3x9loyw3v28''"
  by (simp add: generateSessionId_def env0_def toString36.simps digit36_def)

lemma generateSessionId_env1: "generateSessionId env1 = ''k3x9loyw3v29''"
  by (simp add: generateSessionId_def env1_def env0_def toString36.simps digit36_def)

lemma connect0_fields: "msg_type connect0 = ''connect''" "msg_config connect0 = Some config0"
  by (simp_all add: connect0_def message0_def)

text \<open>Two accepted \<open>connect\<close> messages in a row leave two sessions, the bridge on the second.\<close>

lemma connected_once_state:
  "fst connected_once = \<lparr>sessionId = Some ''k3x9loyw3v28'', readyState = OPEN\<rparr>"
  "sessions (snd connected_once) =
     [''k3x9loyw3v28'' \<mapsto>
        \<lparr>session_id = ''k3x9loyw3v28'', connection = 1, shell = Some 2, isConnected = True\<rparr>]"
proof -
  have c: "ssh_connect env0 (connect_options_of config0) = Inr 1"
    by (simp add: env0_def)
  have r: "requestShell env0 1 \<lparr>cols = 80, rows = 24, term_type = ''xterm-256color''\<rparr> = Inr 2"
    by (simp add: env0_def)
  note t = handle_connect_success [OF connect0_fields c r, where w = empty0 and b = idle0,
      unfolded generateSessionId_env0, folded connected_once_def]
  from t show "fst connected_once = \<lparr>sessionId = Some ''k3x9loyw3v28'', readyState = OPEN\<rparr>"
    by (simp add: idle0_def)
  from t show "sessions (snd connected_once) =
     [''k3x9loyw3v28'' \<mapsto>
        \<lparr>session_id = ''k3x9loyw3v28'', connection = 1, shell = Some 2, isConnected = True\<rparr>]"
    by (simp add: empty0_def)
qed

lemma connected_twice_state:
  "fst connected_twice = \<lparr>sessionId = Some ''k3x9loyw3v29'', readyState = OPEN\<rparr>"
  "sessions (snd connected_twice) =
     [''k3x9loyw3v28'' \<mapsto>
        \<lparr>session_id = ''k3x9loyw3v28'', connection = 1, shell = Some 2, isConnected = True\<rparr>,
      ''k3x9loyw3v29'' \<mapsto>
        \<lparr>session_id = ''k3x9loyw3v29'', connection = 3, shell = Some 4, isConnected = True\<rparr>]"
proof -
  have c: "ssh_connect env1 (connect_options_of config0) = Inr 3"
    by (simp add: env1_def)
  have r: "requestShell env1 3 \<lparr>cols = 80, rows = 24, term_type = ''xterm-256color''\<rparr> = Inr 4"
    by (simp add: env1_def)
  note t = handle_connect_success [OF connect0_fields c r,
      where w = "snd connected_once" and b = "fst connected_once",
      unfolded generateSessionId_env1, folded connected_twice_def]
  from t show "fst connected_twice = \<lparr>sessionId = Some ''k3x9loyw3v29'', readyState = OPEN\<rparr>"
    by (simp add: connected_once_state)
  from t show "sessions (snd connected_twice) =
     [''k3x9loyw3v28'' \<mapsto>
        \<lparr>session_id = ''k3x9loyw3v28'', connection = 1, shell = Some 2, isConnected = True\<rparr>,
      ''k3x9loyw3v29'' \<mapsto>
        \<lparr>session_id = ''k3x9loyw3v29'', connection = 3, shell = Some 4, isConnected = True\<rparr>]"
    by (simp add: connected_once_state)
qed

lemma bound_id_connected_twice: "bound_id (fst connected_twice) = Some ''k3x9loyw3v29''"
  by (simp add: connected_twice_state bound_id_def)

text \<open>What the earlier \<open>sendResponse\<close> does on an open transport whose \<open>send\<close> returns.\<close>

lemma sendResponse_earlier_open:
  "readyState b = OPEN \<Longrightarrow> ws_send e r = None \<Longrightarrow>
   sendResponse_earlier e b r w = (None, w\<lparr>trace := trace w @ [Emit r, Frame r]\<rparr>)"
  by (simp add: sendResponse_earlier_def eff_def)

text \<open>
  C5. The later bridge does what the claim says. The earlier bridge does not: a \<open>connect\<close>
  message that the provider accepts, on an open transport, is answered by exactly one
  \<open>connected\<close> response, and that response carries no session identifier, although the
  new session is registered under the identifier the bridge generated.
\<close>

theorem connect_success_failing:
  "fst (handle_connect_earlier env0 connect0 idle0 empty0) = None
   \<and> emitted (new_effects empty0 (snd (snd (handle_connect_earlier env0 connect0 idle0 empty0))))
       = [connected_response_earlier]
   \<and> frames (new_effects empty0 (snd (snd (handle_connect_earlier env0 connect0 idle0 empty0))))
       = [connected_response_earlier]
   \<and> res_sessionId connected_response_earlier = None
   \<and> sessions (snd (snd (handle_connect_earlier env0 connect0 idle0 empty0))) ''k3x9loyw3v28''
       = Some \<lparr>session_id = ''k3x9loyw3v28'', connection = 1, shell = Some 2,
               isConnected = True\<rparr>
   \<and> sessionId (fst (snd (handle_connect_earlier env0 connect0 idle0 empty0)))
       = Some ''k3x9loyw3v28''"
proof -
  have c: "ssh_connect env0 opts = Inr 1" "requestShell env0 h sopts = Inr 2"
    "ws_send env0 connected_response_earlier = None" for opts h sopts
    by (simp_all add: env0_def)
  have o: "readyState (idle0\<lparr>sessionId := Some ''k3x9loyw3v28''\<rparr>) = OPEN"
    by (simp add: idle0_def)
  have "handle_connect_earlier env0 connect0 idle0 empty0 =
     (None, idle0\<lparr>sessionId := Some ''k3x9loyw3v28''\<rparr>,
      \<lparr>sessions =
         [''k3x9loyw3v28'' \<mapsto>
            \<lparr>session_id = ''k3x9loyw3v28'', connection = 1, shell = Some 2, isConnected = True\<rparr>],
       trace =
         [Connect (connect_options_of_earlier config0),
          RequestShell 1 \<lparr>cols = 80, rows = 24, term_type = ''xterm-256color''\<rparr>,
          Emit connected_response_earlier, Frame connected_response_earlier]\<rparr>)"
    by (simp add: handle_connect_earlier_def connect0_fields generateSessionId_env0
          createSession_earlier_def createShell_earlier_def c Let_def
          sendResponse_earlier_open [OF o c(3)] empty0_def eff_def)
  then show ?thesis
    by (simp add: new_effects_def empty0_def connected_response_earlier_def)
qed

section \<open>Shell channel events\<close>

lemma trace_shell_on_close:
  "trace (snd (shell_on_close e code b w)) =
     trace w @ Log LWarn ''Shell closed for session'' #
       (if code \<noteq> CodeNumber 0 \<and> code \<noteq> CodeNull
        then sendResponse_effects e b disconnected_response @
             (case bound_id b of
                None \<Rightarrow> []
              | Some sid \<Rightarrow> closeSession_effects e (sessions w sid))
        else [])"
  by (simp add: shell_on_close_def Let_def trace_sendResponse trace_closeSession
           split: option.splits)

lemma sessions_shell_on_close:
  "sessions (snd (shell_on_close e code b w)) =
     (if code \<noteq> CodeNumber 0 \<and> code \<noteq> CodeNull
      then (case bound_id b of None \<Rightarrow> sessions w | Some sid \<Rightarrow> (sessions w)(sid := None))
      else sessions w)"
  by (simp add: shell_on_close_def Let_def sessions_closeSession split: option.splits)

text \<open>
  The close listener of the later bridge, for every exit code: with the number zero or
  \<open>null\<close> nothing is emitted; with any other number and with \<open>undefined\<close> exactly one
  response is emitted, \<open>disconnected\<close>, and the session under the identifier the bridge is
  bound to leaves the registry.
\<close>

lemma shell_on_close_responses:
  "(code = CodeNull \<or> code = CodeNumber 0 \<longrightarrow>
      emitted (new_effects w (snd (shell_on_close e code b w))) = []
      \<and> frames (new_effects w (snd (shell_on_close e code b w))) = []
      \<and> sessions (snd (shell_on_close e code b w)) = sessions w)
   \<and> (code \<noteq> CodeNull \<and> code \<noteq> CodeNumber 0 \<longrightarrow>
      emitted (new_effects w (snd (shell_on_close e code b w))) = [disconnected_response]
      \<and> frames (new_effects w (snd (shell_on_close e code b w)))
          = delivered e b [disconnected_response]
      \<and> (\<forall>sid. bound_id b = Some sid \<longrightarrow>
            sessions (snd (shell_on_close e code b w)) = (sessions w)(sid := None)))"
  by (auto simp: new_effects_trace [OF trace_shell_on_close] sessions_shell_on_close
           split: option.splits)

lemma sample_facts:
  "bound_id active0 = Some ''s1''" "readyState active0 = OPEN"
  "sessions world0 ''s1'' = Some session0" "ws_send env0 r = None"
  "delivered env0 active0 rs = rs"
  by (simp_all add: bound_id_def active0_def world0_def env0_def delivered_def)

text \<open>
  C1. The code breaks the claim in three places. The earlier bridge answers \<open>disconnected\<close>
  to a close with exit code zero. The later bridge answers \<open>disconnected\<close>, and closes the
  session, when the exit code is absent as \<open>undefined\<close>. And after a second \<open>connect\<close> on the
  same transport a close with exit code one removes the session of the second shell, so
  that the session of the first shell, whichever of the two shells closed, stays in the
  registry.
\<close>

theorem shell_close_event_failing:
  "emitted (new_effects world0
       (snd (snd (shell_on_close_earlier env0 (CodeNumber 0) active0 world0))))
     = [disconnected_response]
   \<and> frames (new_effects world0
       (snd (snd (shell_on_close_earlier env0 (CodeNumber 0) active0 world0))))
     = [disconnected_response]
   \<and> emitted (new_effects world0 (snd (shell_on_close env0 CodeUndefined active0 world0)))
     = [disconnected_response]
   \<and> frames (new_effects world0 (snd (shell_on_close env0 CodeUndefined active0 world0)))
     = [disconnected_response]
   \<and> sessions (snd (shell_on_close env0 CodeUndefined active0 world0)) ''s1'' = None
   \<and> sessions (snd (shell_on_close env0 (CodeNumber 1) (fst connected_twice)
                       (snd connected_twice))) ''k3x9loyw3v28''
     = Some \<lparr>session_id = ''k3x9loyw3v28'', connection = 1, shell = Some 2,
             isConnected = True\<rparr>
   \<and> sessions (snd (shell_on_close env0 (CodeNumber 1) (fst connected_twice)
                       (snd connected_twice))) ''k3x9loyw3v29''
     = None"
proof -
  have tr: "trace (snd (closeSession e sid w)) = trace w @ closeSession_effects e (sessions w sid)"
    for e sid w
    by (rule trace_closeSession)
  have 1: "new_effects world0
       (snd (snd (shell_on_close_earlier env0 (CodeNumber 0) active0 world0)))
     = [Emit disconnected_response, Frame disconnected_response]
       @ closeSession_effects env0 (Some session0)"
    by (simp add: shell_on_close_earlier_def
          sendResponse_earlier_open [OF sample_facts(2) sample_facts(4)] sample_facts
          new_effects_def tr)
  have 2: "new_effects world0 (snd (shell_on_close env0 CodeUndefined active0 world0))
     = Log LWarn ''Shell closed for session''
       # sendResponse_effects env0 active0 disconnected_response
       @ closeSession_effects env0 (Some session0)"
    by (simp add: new_effects_trace [OF trace_shell_on_close] sample_facts)
  have 3: "sessions (snd (shell_on_close env0 CodeUndefined active0 world0)) ''s1'' = None"
    by (simp add: sessions_shell_on_close sample_facts)
  have 4: "sessions (snd (shell_on_close env0 (CodeNumber 1) (fst connected_twice)
                       (snd connected_twice)))
      = (sessions (snd connected_twice))(''k3x9loyw3v29'' := None)"
    by (simp add: sessions_shell_on_close bound_id_connected_twice)
  show ?thesis
    by (simp add: 1 2 3 4 sample_facts connected_twice_state(2))
qed

lemma trace_shell_on_error:
  "trace (snd (shell_on_error e m b w)) =
     trace w @ Log LError ''SSH stream error for session'' #
       Log LError ''Shell error for session'' #
       sendResponse_effects e b (error_response m) @
       (case bound_id b of
          None \<Rightarrow> []
        | Some sid \<Rightarrow> closeSession_effects e (sessions w sid))"
  by (simp add: shell_on_error_def Let_def trace_sendResponse trace_closeSession
           split: option.splits)

lemma sessions_shell_on_error:
  "sessions (snd (shell_on_error e m b w)) =
     (case bound_id b of None \<Rightarrow> sessions w | Some sid \<Rightarrow> (sessions w)(sid := None))"
  by (simp add: shell_on_error_def Let_def sessions_closeSession split: option.splits)

text \<open>
  The error listener of the later bridge: exactly one response, the \<open>error\<close> with the
  event's message; only the two log lines precede the emission, so the release comes after
  it; and the session under the identifier the bridge is bound to leaves the registry.
\<close>

lemma shell_on_error_responses:
  "emitted (new_effects w (snd (shell_on_error e m b w))) = [error_response m]
   \<and> frames (new_effects w (snd (shell_on_error e m b w))) = delivered e b [error_response m]
   \<and> takeWhile (\<lambda>x. x \<noteq> Emit (error_response m)) (new_effects w (snd (shell_on_error e m b w)))
        = [Log LError ''SSH stream error for session'', Log LError ''Shell error for session'']
   \<and> (\<forall>sid. bound_id b = Some sid \<longrightarrow>
         sessions (snd (shell_on_error e m b w)) = (sessions w)(sid := None))"
proof -
  note t = new_effects_trace [OF trace_shell_on_error]
  have "emitted (new_effects w (snd (shell_on_error e m b w))) = [error_response m]"
    by (simp add: t split: option.splits)
  moreover
  have "frames (new_effects w (snd (shell_on_error e m b w))) = delivered e b [error_response m]"
    by (simp add: t split: option.splits)
  moreover
  have "takeWhile (\<lambda>x. x \<noteq> Emit (error_response m)) (new_effects w (snd (shell_on_error e m b w)))
        = [Log LError ''SSH stream error for session'', Log LError ''Shell error for session'']"
    by (simp add: t sendResponse_effects_def)
  moreover
  have "\<forall>sid. bound_id b = Some sid \<longrightarrow>
         sessions (snd (shell_on_error e m b w)) = (sessions w)(sid := None)"
    by (simp add: sessions_shell_on_error)
  ultimately show ?thesis by blast
qed

text \<open>
  C4. The code breaks the claim in two places. The earlier bridge answers the error of the
  shell with the \<open>error\<close> response and stops there: the session stays in the registry, its
  shell is not ended and its connection is not disposed. The later bridge closes the session
  the bridge is bound to: after a second \<open>connect\<close> on the same transport that is the
  session of the second shell, and the session of the first shell, whichever of the two
  shells failed, stays in the registry.
\<close>

theorem shell_error_event_failing:
  "emitted (new_effects world0
       (snd (snd (shell_on_error_earlier env0 ''ECONNRESET'' active0 world0))))
     = [error_response ''ECONNRESET'']
   \<and> sessions (snd (snd (shell_on_error_earlier env0 ''ECONNRESET'' active0 world0))) ''s1''
     = Some session0
   \<and> shell_ends (new_effects world0
       (snd (snd (shell_on_error_earlier env0 ''ECONNRESET'' active0 world0)))) = []
   \<and> disposals (new_effects world0
       (snd (snd (shell_on_error_earlier env0 ''ECONNRESET'' active0 world0)))) = []
   \<and> emitted (new_effects (snd connected_twice)
       (snd (shell_on_error env0 ''ECONNRESET'' (fst connected_twice) (snd connected_twice))))
     = [error_response ''ECONNRESET'']
   \<and> sessions (snd (shell_on_error env0 ''ECONNRESET'' (fst connected_twice)
                       (snd connected_twice))) ''k3x9loyw3v28''
     = Some \<lparr>session_id = ''k3x9loyw3v28'', connection = 1, shell = Some 2,
             isConnected = True\<rparr>
   \<and> sessions (snd (shell_on_error env0 ''ECONNRESET'' (fst connected_twice)
                       (snd connected_twice))) ''k3x9loyw3v29''
     = None"
proof -
  have 1: "snd (snd (shell_on_error_earlier env0 ''ECONNRESET'' active0 world0))
     = world0\<lparr>trace := trace world0 @
         [Log LError ''Shell error for session'', Emit (error_response ''ECONNRESET''),
          Frame (error_response ''ECONNRESET'')]\<rparr>"
    by (simp add: shell_on_error_earlier_def
          sendResponse_earlier_open [OF sample_facts(2) sample_facts(4)] eff_def)
  have n: "new_effects world0
       (snd (snd (shell_on_error_earlier env0 ''ECONNRESET'' active0 world0)))
     = [Log LError ''Shell error for session'', Emit (error_response ''ECONNRESET''),
        Frame (error_response ''ECONNRESET'')]"
    by (simp add: 1 new_effects_def)
  have k: "sessions (snd (snd (shell_on_error_earlier env0 ''ECONNRESET'' active0 world0)))
       ''s1'' = Some session0"
    by (simp add: 1 sample_facts)
  have 2: "emitted (new_effects (snd connected_twice)
       (snd (shell_on_error env0 ''ECONNRESET'' (fst connected_twice) (snd connected_twice))))
     = [error_response ''ECONNRESET'']"
    by (simp add: new_effects_trace [OF trace_shell_on_error] split: option.splits)
  have 3: "sessions (snd (shell_on_error env0 ''ECONNRESET'' (fst connected_twice)
                       (snd connected_twice)))
      = (sessions (snd connected_twice))(''k3x9loyw3v29'' := None)"
    by (simp add: sessions_shell_on_error bound_id_connected_twice)
  show ?thesis
    by (simp add: n k 2 3 connected_twice_state(2))
qed

section \<open>Client messages\<close>

text \<open>
  C8. A frame on which \<open>JSON.parse\<close> raises is answered by exactly one response, the
  \<open>error\<close> with the text \<open>Invalid message format\<close> (on the transport when that is open and
  the send does not raise); the bridge state, with the state of the transport in it, and
  the registry are as before. The frame \<open>null\<close>, on which reading \<open>message.type\<close> raises,
  is handled the same way.
\<close>

theorem unparseable_frame:
  "emitted (new_effects w (snd (on_message e Unparseable b w)))
     = [error_response ''Invalid message format'']
   \<and> frames (new_effects w (snd (on_message e Unparseable b w)))
       = delivered e b [error_response ''Invalid message format'']
   \<and> fst (on_message e Unparseable b w) = b
   \<and> sessions (snd (on_message e Unparseable b w)) = sessions w
   \<and> on_message e ParsedNull b w = on_message e Unparseable b w"
  by (simp add: on_message_def new_effects_def trace_sendResponse)

text \<open>
  C9. With an identifier bound, a \<open>command\<close> message whose command is the empty string is
  answered by exactly one response, the \<open>error\<close> with the text \<open>Command required\<close>; nothing
  is written to a shell channel, and bridge and registry are as before.
\<close>

theorem empty_command:
  "bound_id b = Some sid \<Longrightarrow> msg_type m = ''command'' \<Longrightarrow> msg_command m = Some [] \<Longrightarrow>
   emitted (new_effects w (snd (on_message e (Parsed m) b w))) = [error_response ''Command required'']
   \<and> frames (new_effects w (snd (on_message e (Parsed m) b w)))
        = delivered e b [error_response ''Command required'']
   \<and> shell_writes (new_effects w (snd (on_message e (Parsed m) b w))) = []
   \<and> fst (on_message e (Parsed m) b w) = b
   \<and> sessions (snd (on_message e (Parsed m) b w)) = sessions w"
  by (simp add: on_message_command handle_command_def new_effects_def trace_sendResponse)

theorem empty_command_witness:
  "emitted (new_effects world0
      (snd (on_message env0 (Parsed ((message0 ''command'')\<lparr>msg_command := Some []\<rparr>))
              active0 world0)))
     = [error_response ''Command required'']
   \<and> shell_writes (new_effects world0
      (snd (on_message env0 (Parsed ((message0 ''command'')\<lparr>msg_command := Some []\<rparr>))
              active0 world0)))
     = []"
  using empty_command
    [of active0 "''s1''" "(message0 ''command'')\<lparr>msg_command := Some []\<rparr>" world0 env0]
  by (simp add: bound_id_def active0_def message0_def)

text \<open>
  C10. With no identifier bound, a \<open>disconnect\<close> message is answered by exactly one
  response, \<open>disconnected\<close> (so no \<open>error\<close>), and bridge and registry are as before.
\<close>

theorem disconnect_unbound:
  "bound_id b = None \<Longrightarrow> msg_type m = ''disconnect'' \<Longrightarrow>
   emitted (new_effects w (snd (on_message e (Parsed m) b w))) = [disconnected_response]
   \<and> frames (new_effects w (snd (on_message e (Parsed m) b w)))
        = delivered e b [disconnected_response]
   \<and> fst (on_message e (Parsed m) b w) = b
   \<and> sessions (snd (on_message e (Parsed m) b w)) = sessions w"
  by (simp add: on_message_disconnect handle_disconnect_def new_effects_def trace_sendResponse)

theorem disconnect_unbound_witness:
  "emitted (new_effects world0
      (snd (on_message env0 (Parsed (message0 ''disconnect'')) idle0 world0)))
     = [disconnected_response]
   \<and> sessions (snd (on_message env0 (Parsed (message0 ''disconnect'')) idle0 world0))
     = sessions world0"
  using disconnect_unbound [of idle0 "message0 ''disconnect''" world0 env0]
  by (simp add: bound_id_def idle0_def message0_def)

lemma handle_resize_bound:
  "bound_id b = Some sid \<Longrightarrow>
   handle_resize e m b w =
     (b, w\<lparr>trace := trace w @
        (case sessions w sid of
           None \<Rightarrow> [Log LError ''Resize error:'']
         | Some s \<Rightarrow>
             (case shell s of
                None \<Rightarrow> [Log LError ''Resize error:'']
              | Some ch \<Rightarrow>
                  ShellSetWindow ch (or_default (msg_rows m) 24) (or_default (msg_cols m) 80) #
                  (case shell_setWindow e ch (or_default (msg_rows m) 24)
                          (or_default (msg_cols m) 80) of
                     None \<Rightarrow> []
                   | Some x \<Rightarrow> [Log LError ''Failed to resize shell:''])))\<rparr>)"
  by (simp add: handle_resize_def resizeShell_def eff_def Let_def split: option.splits)

text \<open>
  C7. With an identifier bound, a \<open>resize\<close> message emits no response at all, so no
  \<open>error\<close>, and leaves bridge and registry as they were. When the session or its shell is
  missing the failure is logged as \<open>Resize error:\<close>; when \<open>setWindow\<close> raises it is logged
  as \<open>Failed to resize shell:\<close>.
\<close>

theorem resize_silent:
  "bound_id b = Some sid \<Longrightarrow> msg_type m = ''resize'' \<Longrightarrow>
   emitted (new_effects w (snd (on_message e (Parsed m) b w))) = []
   \<and> frames (new_effects w (snd (on_message e (Parsed m) b w))) = []
   \<and> fst (on_message e (Parsed m) b w) = b
   \<and> sessions (snd (on_message e (Parsed m) b w)) = sessions w
   \<and> (sessions w sid = None \<or> (\<exists>s. sessions w sid = Some s \<and> shell s = None) \<longrightarrow>
        error_logs (new_effects w (snd (on_message e (Parsed m) b w))) = [''Resize error:''])
   \<and> (\<forall>s ch x. sessions w sid = Some s \<and> shell s = Some ch
          \<and> shell_setWindow e ch (or_default (msg_rows m) 24) (or_default (msg_cols m) 80) = Some x
        \<longrightarrow> error_logs (new_effects w (snd (on_message e (Parsed m) b w)))
              = [''Failed to resize shell:''])"
  by (auto simp: on_message_resize handle_resize_bound new_effects_def split: option.splits)

theorem resize_silent_witness:
  "emitted (new_effects empty0 (snd (on_message env0 (Parsed (message0 ''resize'')) active0 empty0)))
     = []
   \<and> error_logs (new_effects empty0
        (snd (on_message env0 (Parsed (message0 ''resize'')) active0 empty0)))
     = [''Resize error:'']
   \<and> emitted (new_effects world0
        (snd (on_message env_resize_raises (Parsed (message0 ''resize'')) active0 world0)))
     = []
   \<and> error_logs (new_effects world0
        (snd (on_message env_resize_raises (Parsed (message0 ''resize'')) active0 world0)))
     = [''Failed to resize shell:'']"
  using resize_silent [of active0 "''s1''" "message0 ''resize''" empty0 env0]
        resize_silent [of active0 "''s1''" "message0 ''resize''" world0 env_resize_raises]
  by (simp add: bound_id_def active0_def message0_def empty0_def world0_def session0_def
        env_resize_raises_def env0_def or_default_def)

section \<open>Session removal\<close>

text \<open>
  C6. For an identifier present in the registry, \<open>closeSession\<close> leaves the registry
  without that identifier and otherwise unchanged, and raises nothing to its caller,
  whatever the shell's \<open>end\<close> and the connection's \<open>dispose\<close> do; when one of them raises,
  the error is logged once as \<open>Error closing session:\<close>.
\<close>

theorem closeSession_removes:
  "sessions w sid = Some s \<Longrightarrow>
   sessions (snd (closeSession e sid w)) sid = None
   \<and> sessions (snd (closeSession e sid w)) = (sessions w)(sid := None)
   \<and> fst (closeSession e sid w) = None
   \<and> ((\<exists>ch x. shell s = Some ch \<and> shell_end e ch = Some x)
         \<or> (\<exists>x. dispose e (connection s) = Some x)
        \<longrightarrow> error_logs (new_effects w (snd (closeSession e sid w))) = [''Error closing session:''])"
proof -
  assume s: "sessions w sid = Some s"
  have "fst (closeSession e sid w) = None"
    by (simp add: closeSession_def Let_def split: option.splits prod.splits)
  moreover
  have "(\<exists>ch x. shell s = Some ch \<and> shell_end e ch = Some x)
          \<or> (\<exists>x. dispose e (connection s) = Some x)
        \<longrightarrow> error_logs (new_effects w (snd (closeSession e sid w))) = [''Error closing session:'']"
    using s by (auto simp: new_effects_trace [OF trace_closeSession] closeSession_effects_def
                     split: option.splits)
  ultimately show ?thesis by (simp add: sessions_closeSession)
qed

theorem closeSession_removes_witness:
  "sessions (snd (closeSession env_end_raises ''s1'' world0)) ''s1'' = None
   \<and> fst (closeSession env_end_raises ''s1'' world0) = None
   \<and> error_logs (new_effects world0 (snd (closeSession env_end_raises ''s1'' world0)))
       = [''Error closing session:'']
   \<and> sessions (snd (closeSession env_dispose_raises ''s1'' world0)) ''s1'' = None
   \<and> fst (closeSession env_dispose_raises ''s1'' world0) = None
   \<and> error_logs (new_effects world0 (snd (closeSession env_dispose_raises ''s1'' world0)))
       = [''Error closing session:'']"
proof -
  have s: "sessions world0 ''s1'' = Some session0"
    by (simp add: world0_def)
  have x: "shell session0 = Some 2" "shell_end env_end_raises 2 = Some (Error ''stream destroyed'')"
    "dispose env_dispose_raises (connection session0) = Some (Error ''socket gone'')"
    by (simp_all add: session0_def env_end_raises_def env_dispose_raises_def env0_def)
  show ?thesis
    using closeSession_removes [OF s, of env_end_raises]
          closeSession_removes [OF s, of env_dispose_raises] x
    by simp
qed

text \<open>
  The second of two calls of \<open>closeSession\<close> in succession finds the identifier absent and
  returns the state the first call left. When the identifier was registered and the shell's
  \<open>end\<close> did not raise, the two calls end the shell once, if there is one, and dispose the
  connection once.
\<close>

lemma closeSession_second_call:
  "closeSession e' sid (snd (closeSession e sid w)) = (None, snd (closeSession e sid w))
   \<and> (\<forall>s. sessions w sid = Some s \<longrightarrow>
        shell_ends (new_effects w (snd (closeSession e' sid (snd (closeSession e sid w)))))
          = (case shell s of None \<Rightarrow> [] | Some ch \<Rightarrow> [ch])
        \<and> ((case shell s of None \<Rightarrow> True | Some ch \<Rightarrow> shell_end e ch = None) \<longrightarrow>
             disposals (new_effects w (snd (closeSession e' sid (snd (closeSession e sid w)))))
               = [connection s]))"
proof -
  have 2: "closeSession e' sid (snd (closeSession e sid w)) = (None, snd (closeSession e sid w))"
    by (rule closeSession_absent) (simp add: sessions_closeSession)
  note t = new_effects_trace [OF trace_closeSession]
  show ?thesis
    by (auto simp: 2 t closeSession_effects_def split: option.splits)
qed

text \<open>
  C3. The code breaks the claim in two places. On a registered session whose shell raises
  in \<open>end\<close>, two calls of \<open>closeSession\<close> in succession end the shell once and never dispose
  the connection, while the entry leaves the registry: the \<open>try\<close> block stops at the raise.
  And a \<open>disconnect\<close> message followed by a late close event of the shell with exit code one
  is answered by two \<open>disconnected\<close> responses: the close listener sends its response
  before it looks at the identifier.
\<close>

theorem closeSession_twice_failing:
  "sessions world0 ''s1'' = Some session0
   \<and> shell_ends (new_effects world0
        (snd (closeSession env0 ''s1'' (snd (closeSession env_end_raises ''s1'' world0))))) = [2]
   \<and> disposals (new_effects world0
        (snd (closeSession env0 ''s1'' (snd (closeSession env_end_raises ''s1'' world0))))) = []
   \<and> sessions (snd (closeSession env0 ''s1'' (snd (closeSession env_end_raises ''s1'' world0))))
        ''s1'' = None
   \<and> emitted (new_effects world0
        (snd (shell_on_close env0 (CodeNumber 1)
               (fst (on_message env0 (Parsed (message0 ''disconnect'')) active0 world0))
               (snd (on_message env0 (Parsed (message0 ''disconnect'')) active0 world0)))))
      = [disconnected_response, disconnected_response]"
proof -
  have x: "shell session0 = Some 2" "shell_end env_end_raises 2 = Some (Error ''stream destroyed'')"
    by (simp_all add: session0_def env_end_raises_def env0_def)
  have a: "closeSession env0 ''s1'' (snd (closeSession env_end_raises ''s1'' world0))
      = (None, snd (closeSession env_end_raises ''s1'' world0))"
    by (rule closeSession_absent) (simp add: sessions_closeSession)
  have c: "new_effects world0 (snd (closeSession env_end_raises ''s1'' world0))
      = [ShellEnd 2, Log LError ''Error closing session:'']"
    by (simp add: new_effects_trace [OF trace_closeSession] closeSession_effects_def
          sample_facts x)
  have m: "msg_type (message0 ''disconnect'') = ''disconnect''"
    by (simp add: message0_def)
  have d: "on_message env0 (Parsed (message0 ''disconnect'')) active0 world0 =
     (active0\<lparr>sessionId := None\<rparr>,
      sendResponse env0 (active0\<lparr>sessionId := None\<rparr>) disconnected_response
        (snd (closeSession env0 ''s1'' world0)))"
    by (simp add: on_message_disconnect [OF m] handle_disconnect_bound [OF sample_facts(1)])
  have u: "bound_id (active0\<lparr>sessionId := None\<rparr>) = None"
    by (simp add: bound_id_def)
  have t: "trace (snd (shell_on_close env0 (CodeNumber 1) (active0\<lparr>sessionId := None\<rparr>)
              (sendResponse env0 (active0\<lparr>sessionId := None\<rparr>) disconnected_response
                 (snd (closeSession env0 ''s1'' world0)))))
      = trace world0 @ closeSession_effects env0 (sessions world0 ''s1'')
        @ sendResponse_effects env0 active0 disconnected_response
        @ Log LWarn ''Shell closed for session''
        # sendResponse_effects env0 active0 disconnected_response"
    by (simp add: trace_shell_on_close trace_sendResponse trace_closeSession u)
  have e: "emitted (new_effects world0
        (snd (shell_on_close env0 (CodeNumber 1)
               (fst (on_message env0 (Parsed (message0 ''disconnect'')) active0 world0))
               (snd (on_message env0 (Parsed (message0 ''disconnect'')) active0 world0)))))
      = [disconnected_response, disconnected_response]"
    by (simp add: d new_effects_trace [OF t])
  show ?thesis
    by (simp add: a c e sample_facts sessions_closeSession)
qed

section \<open>The \<open>connect\<close> message, when the provider refuses\<close>

lemma handle_connect_establishment_fails:
  "msg_config m = Some config \<Longrightarrow> ssh_connect e (connect_options_of config) = Inl x \<Longrightarrow>
   handle_connect e m b w =
     (b\<lparr>sessionId := Some (generateSessionId e)\<rparr>,
      w\<lparr>trace := trace w @
          Connect (connect_options_of config) # Log LError ''SSH connection error:'' #
          sendResponse_effects e b
            (error_response (''SSH connection failed: '' @ error_message x ''Unknown error''))\<rparr>)"
  by (simp add: handle_connect_def createSession_def connect_catch_def Let_def error_message_def
        sendResponse_def sendResponse_effects_def eff_def split: option.splits)

lemma handle_connect_shell_open_fails:
  "msg_config m = Some config \<Longrightarrow> ssh_connect e (connect_options_of config) = Inr h \<Longrightarrow>
   requestShell e h \<lparr>cols = 80, rows = 24, term_type = ''xterm-256color''\<rparr> = Inl x \<Longrightarrow>
   handle_connect e m b w =
     (b\<lparr>sessionId := Some (generateSessionId e)\<rparr>,
      w\<lparr>sessions := (sessions w)(generateSessionId e \<mapsto>
            \<lparr>session_id = generateSessionId e, connection = h, shell = None, isConnected = True\<rparr>),
        trace := trace w @
          Connect (connect_options_of config) #
          RequestShell h \<lparr>cols = 80, rows = 24, term_type = ''xterm-256color''\<rparr> #
          Log LError ''Failed to create shell for session'' #
          Log LError ''SSH connection error:'' #
          sendResponse_effects e b
            (error_response (''Failed to create shell: '' @ error_message x ''Unknown error''))\<rparr>)"
  by (simp add: handle_connect_def createSession_def createShell_def connect_catch_def Let_def
        error_message_def sendResponse_def sendResponse_effects_def eff_def split: option.splits)

lemma handle_command_no_shell:
  "bound_id b = Some sid \<Longrightarrow> msg_command m = Some c \<Longrightarrow> c \<noteq> [] \<Longrightarrow>
   sessions w sid = None \<or> (\<exists>s. sessions w sid = Some s \<and> shell s = None) \<Longrightarrow>
   handle_command e m b w = (b, sendResponse e b (error_response ''Shell not available'') w)"
  by (auto simp: handle_command_def getSession_def)

lemma handle_command_unbound:
  "bound_id b = None \<Longrightarrow>
   handle_command e m b w = (b, sendResponse e b (error_response ''No active session'') w)"
  by (simp add: handle_command_def)

lemma handle_resize_unbound:
  "bound_id b = None \<Longrightarrow>
   handle_resize e m b w = (b, sendResponse e b (error_response ''No active session'') w)"
  by (simp add: handle_resize_def)

lemma handle_resize_emits_nothing:
  "bound_id b = Some sid \<Longrightarrow>
   emitted (new_effects w (snd (handle_resize e m b w))) = []"
  by (simp add: handle_resize_bound new_effects_def split: option.splits)

text \<open>
  The messages that follow a failed \<open>connect\<close>: the bridge is bound to an identifier under
  which the registry has nothing, or a session without a shell.
\<close>

lemma after_failed_connect:
  assumes b: "bound_id b1 = Some sid"
    and s: "sessions w1 sid = None \<or> (\<exists>s. sessions w1 sid = Some s \<and> shell s = None)"
  shows "(\<forall>e2 (m2::SSHMessage) c.
            msg_type m2 = ''command'' \<and> msg_command m2 = Some c \<and> c \<noteq> [] \<longrightarrow>
            emitted (new_effects w1 (snd (on_message e2 (Parsed m2) b1 w1)))
              = [error_response ''Shell not available'']
            \<and> shell_writes (new_effects w1 (snd (on_message e2 (Parsed m2) b1 w1))) = [])
       \<and> (\<forall>e2 (m2::SSHMessage). msg_type m2 = ''resize'' \<longrightarrow>
            emitted (new_effects w1 (snd (on_message e2 (Parsed m2) b1 w1))) = [])
       \<and> (\<forall>e2 (m2::SSHMessage). msg_type m2 = ''disconnect'' \<longrightarrow>
            emitted (new_effects w1 (snd (on_message e2 (Parsed m2) b1 w1)))
              = [disconnected_response]
            \<and> sessionId (fst (on_message e2 (Parsed m2) b1 w1)) = None
            \<and> sessions (snd (on_message e2 (Parsed m2) b1 w1)) sid = None)"
proof (intro conjI allI impI)
  fix e2 and m2 :: SSHMessage and c
  assume m: "msg_type m2 = ''command'' \<and> msg_command m2 = Some c \<and> c \<noteq> []"
  then have r: "on_message e2 (Parsed m2) b1 w1
      = (b1, sendResponse e2 b1 (error_response ''Shell not available'') w1)"
    using b s by (simp add: on_message_command handle_command_no_shell)
  show "emitted (new_effects w1 (snd (on_message e2 (Parsed m2) b1 w1)))
          = [error_response ''Shell not available'']"
    by (simp add: r new_effects_trace [OF trace_sendResponse])
  show "shell_writes (new_effects w1 (snd (on_message e2 (Parsed m2) b1 w1))) = []"
    by (simp add: r new_effects_trace [OF trace_sendResponse])
next
  fix e2 and m2 :: SSHMessage
  assume "msg_type m2 = ''resize''"
  then show "emitted (new_effects w1 (snd (on_message e2 (Parsed m2) b1 w1))) = []"
    using b by (simp add: on_message_resize handle_resize_emits_nothing)
next
  fix e2 and m2 :: SSHMessage
  assume "msg_type m2 = ''disconnect''"
  then have r: "on_message e2 (Parsed m2) b1 w1 =
     (b1\<lparr>sessionId := None\<rparr>,
      sendResponse e2 (b1\<lparr>sessionId := None\<rparr>) disconnected_response
        (snd (closeSession e2 sid w1)))"
    using b by (simp add: on_message_disconnect handle_disconnect_bound)
  show "emitted (new_effects w1 (snd (on_message e2 (Parsed m2) b1 w1)))
          = [disconnected_response]"
    by (simp add: r new_effects_trans [OF trace_closeSession trace_sendResponse])
  show "sessionId (fst (on_message e2 (Parsed m2) b1 w1)) = None"
    by (simp add: r)
  show "sessions (snd (on_message e2 (Parsed m2) b1 w1)) sid = None"
    by (simp add: r sessions_closeSession)
qed

lemma failed_connect_state:
  assumes m: "msg_type m = ''connect''" "msg_config m = Some config"
    and f: "establishment_fails e config \<or> shell_open_fails e config"
  shows "fst (on_message e (Parsed m) b w) = b\<lparr>sessionId := Some (generateSessionId e)\<rparr>"
    and "map res_type (emitted (new_effects w (snd (on_message e (Parsed m) b w)))) = [error]"
    and "frames (new_effects w (snd (on_message e (Parsed m) b w)))
          = delivered e b (emitted (new_effects w (snd (on_message e (Parsed m) b w))))"
    and "establishment_fails e config \<Longrightarrow> sessions (snd (on_message e (Parsed m) b w)) = sessions w"
    and "\<not> establishment_fails e config \<Longrightarrow>
           \<exists>s. sessions (snd (on_message e (Parsed m) b w)) (generateSessionId e) = Some s
              \<and> shell s = None"
proof -
  have "fst (on_message e (Parsed m) b w) = b\<lparr>sessionId := Some (generateSessionId e)\<rparr>
    \<and> map res_type (emitted (new_effects w (snd (on_message e (Parsed m) b w)))) = [error]
    \<and> frames (new_effects w (snd (on_message e (Parsed m) b w)))
          = delivered e b (emitted (new_effects w (snd (on_message e (Parsed m) b w))))
    \<and> (establishment_fails e config \<longrightarrow> sessions (snd (on_message e (Parsed m) b w)) = sessions w)
    \<and> (\<not> establishment_fails e config \<longrightarrow>
           (\<exists>s. sessions (snd (on_message e (Parsed m) b w)) (generateSessionId e) = Some s
              \<and> shell s = None))"
  proof (cases "ssh_connect e (connect_options_of config)")
    case (Inl x)
    have ef: "establishment_fails e config"
      by (simp add: establishment_fails_def Inl)
    show ?thesis
      by (simp add: on_message_connect m handle_connect_establishment_fails [OF m(2) Inl]
            new_effects_def error_response_def ef)
  next
    case (Inr h)
    then have nf: "\<not> establishment_fails e config"
      by (simp add: establishment_fails_def)
    with f Inr obtain x where
      x: "requestShell e h \<lparr>cols = 80, rows = 24, term_type = ''xterm-256color''\<rparr> = Inl x"
      by (auto simp: shell_open_fails_def isl_def)
    show ?thesis
      by (simp add: on_message_connect m handle_connect_shell_open_fails [OF m(2) Inr x]
            new_effects_def error_response_def nf)
  qed
  then show
    "fst (on_message e (Parsed m) b w) = b\<lparr>sessionId := Some (generateSessionId e)\<rparr>"
    "map res_type (emitted (new_effects w (snd (on_message e (Parsed m) b w)))) = [error]"
    "frames (new_effects w (snd (on_message e (Parsed m) b w)))
          = delivered e b (emitted (new_effects w (snd (on_message e (Parsed m) b w))))"
    "establishment_fails e config \<Longrightarrow> sessions (snd (on_message e (Parsed m) b w)) = sessions w"
    "\<not> establishment_fails e config \<Longrightarrow>
           \<exists>s. sessions (snd (on_message e (Parsed m) b w)) (generateSessionId e) = Some s
              \<and> shell s = None"
    by blast+
qed

text \<open>
  C2, as the code has it. When \<open>ssh.connect\<close> or \<open>requestShell\<close> raises, a \<open>connect\<close>
  message is answered by exactly one response, an \<open>error\<close>. When \<open>ssh.connect\<close> raised the
  registry is as before. The bridge stays bound to the identifier generated for the
  attempt. Provided that identifier was not registered before a failed establishment, the
  next message finds no shell under it: a \<open>command\<close> with a non-empty text is answered by
  the \<open>error\<close> \<open>Shell not available\<close> and nothing is written, a \<open>resize\<close> emits nothing, and
  a \<open>disconnect\<close> is answered by exactly one \<open>disconnected\<close>, unbinds the bridge and leaves
  nothing under the identifier.
\<close>

theorem connect_failure:
  assumes m: "msg_type m = ''connect''" "msg_config m = Some config"
    and f: "establishment_fails e config \<or> shell_open_fails e config"
  shows
   "(let r = on_message e (Parsed m) b w; b1 = fst r; w1 = snd r in
      map res_type (emitted (new_effects w w1)) = [error]
      \<and> frames (new_effects w w1) = delivered e b (emitted (new_effects w w1))
      \<and> (establishment_fails e config \<longrightarrow> sessions w1 = sessions w)
      \<and> b1 = b\<lparr>sessionId := Some (generateSessionId e)\<rparr>
      \<and> bound_id b1 = Some (generateSessionId e)
      \<and> ((establishment_fails e config \<longrightarrow> sessions w (generateSessionId e) = None) \<longrightarrow>
           (\<forall>e2 m2 c. msg_type m2 = ''command'' \<and> msg_command m2 = Some c \<and> c \<noteq> [] \<longrightarrow>
              emitted (new_effects w1 (snd (on_message e2 (Parsed m2) b1 w1)))
                = [error_response ''Shell not available'']
              \<and> shell_writes (new_effects w1 (snd (on_message e2 (Parsed m2) b1 w1))) = [])
           \<and> (\<forall>e2 m2. msg_type m2 = ''resize'' \<longrightarrow>
                emitted (new_effects w1 (snd (on_message e2 (Parsed m2) b1 w1))) = [])
           \<and> (\<forall>e2 m2. msg_type m2 = ''disconnect'' \<longrightarrow>
                emitted (new_effects w1 (snd (on_message e2 (Parsed m2) b1 w1)))
                  = [disconnected_response]
                \<and> sessionId (fst (on_message e2 (Parsed m2) b1 w1)) = None
                \<and> sessions (snd (on_message e2 (Parsed m2) b1 w1)) (generateSessionId e) = None)))"
proof -
  define b1 where "b1 = fst (on_message e (Parsed m) b w)"
  define w1 where "w1 = snd (on_message e (Parsed m) b w)"
  note st = failed_connect_state [OF m f, where b = b and w = w, folded b1_def w1_def]
  have bnd: "bound_id b1 = Some (generateSessionId e)"
    by (simp add: st(1))
  have later:
    "(\<forall>e2 m2 c. msg_type m2 = ''command'' \<and> msg_command m2 = Some c \<and> c \<noteq> [] \<longrightarrow>
              emitted (new_effects w1 (snd (on_message e2 (Parsed m2) b1 w1)))
                = [error_response ''Shell not available'']
              \<and> shell_writes (new_effects w1 (snd (on_message e2 (Parsed m2) b1 w1))) = [])
           \<and> (\<forall>e2 m2. msg_type m2 = ''resize'' \<longrightarrow>
                emitted (new_effects w1 (snd (on_message e2 (Parsed m2) b1 w1))) = [])
           \<and> (\<forall>e2 m2. msg_type m2 = ''disconnect'' \<longrightarrow>
                emitted (new_effects w1 (snd (on_message e2 (Parsed m2) b1 w1)))
                  = [disconnected_response]
                \<and> sessionId (fst (on_message e2 (Parsed m2) b1 w1)) = None
                \<and> sessions (snd (on_message e2 (Parsed m2) b1 w1)) (generateSessionId e) = None)"
    if fresh: "establishment_fails e config \<longrightarrow> sessions w (generateSessionId e) = None"
  proof -
    have no_shell: "sessions w1 (generateSessionId e) = None
        \<or> (\<exists>s. sessions w1 (generateSessionId e) = Some s \<and> shell s = None)"
    proof (cases "establishment_fails e config")
      case True
      with fresh st(4) show ?thesis by simp
    next
      case False
      with st(5) show ?thesis by simp
    qed
    show ?thesis by (rule after_failed_connect [OF bnd no_shell])
  qed
  have first: "map res_type (emitted (new_effects w w1)) = [error]
      \<and> frames (new_effects w w1) = delivered e b (emitted (new_effects w w1))
      \<and> (establishment_fails e config \<longrightarrow> sessions w1 = sessions w)
      \<and> b1 = b\<lparr>sessionId := Some (generateSessionId e)\<rparr>
      \<and> bound_id b1 = Some (generateSessionId e)"
    using st(1,2,3,4) bnd by simp
  show ?thesis
    unfolding Let_def b1_def [symmetric] w1_def [symmetric]
    using first later by blast
qed

theorem connect_failure_witness:
  "map res_type (emitted (new_effects empty0
       (snd (on_message env_bad_auth (Parsed connect0) idle0 empty0)))) = [error]
   \<and> sessions (snd (on_message env_bad_auth (Parsed connect0) idle0 empty0)) = sessions empty0
   \<and> bound_id (fst (on_message env_bad_auth (Parsed connect0) idle0 empty0))
       = Some (generateSessionId env_bad_auth)
   \<and> emitted (new_effects (snd (on_message env_bad_auth (Parsed connect0) idle0 empty0))
       (snd (on_message env0 (Parsed ((message0 ''command'')\<lparr>msg_command := Some ''ls''\<rparr>))
              (fst (on_message env_bad_auth (Parsed connect0) idle0 empty0))
              (snd (on_message env_bad_auth (Parsed connect0) idle0 empty0)))))
       = [error_response ''Shell not available'']
   \<and> shell_writes (new_effects (snd (on_message env_bad_auth (Parsed connect0) idle0 empty0))
       (snd (on_message env0 (Parsed ((message0 ''command'')\<lparr>msg_command := Some ''ls''\<rparr>))
              (fst (on_message env_bad_auth (Parsed connect0) idle0 empty0))
              (snd (on_message env_bad_auth (Parsed connect0) idle0 empty0)))))
       = []
   \<and> emitted (new_effects (snd (on_message env_bad_auth (Parsed connect0) idle0 empty0))
       (snd (on_message env0 (Parsed (message0 ''disconnect''))
              (fst (on_message env_bad_auth (Parsed connect0) idle0 empty0))
              (snd (on_message env_bad_auth (Parsed connect0) idle0 empty0)))))
       = [disconnected_response]
   \<and> sessionId (fst (on_message env0 (Parsed (message0 ''disconnect''))
              (fst (on_message env_bad_auth (Parsed connect0) idle0 empty0))
              (snd (on_message env_bad_auth (Parsed connect0) idle0 empty0))))
       = None
   \<and> map res_type (emitted (new_effects empty0
       (snd (on_message env_no_shell (Parsed connect0) idle0 empty0)))) = [error]
   \<and> emitted (new_effects (snd (on_message env_no_shell (Parsed connect0) idle0 empty0))
       (snd (on_message env0 (Parsed (message0 ''resize''))
              (fst (on_message env_no_shell (Parsed connect0) idle0 empty0))
              (snd (on_message env_no_shell (Parsed connect0) idle0 empty0)))))
       = []"
proof -
  have m: "msg_type connect0 = ''connect''" "msg_config connect0 = Some config0"
    by (simp_all add: connect0_def message0_def)
  have ef: "establishment_fails env_bad_auth config0"
    by (simp add: establishment_fails_def env_bad_auth_def)
  have sf: "shell_open_fails env_no_shell config0" "\<not> establishment_fails env_no_shell config0"
    by (simp_all add: shell_open_fails_def establishment_fails_def env_no_shell_def env0_def)
  have fresh: "sessions empty0 (generateSessionId env_bad_auth) = None"
    by (simp add: empty0_def)
  have t: "msg_type (message0 ''disconnect'') = ''disconnect''"
    "msg_type (message0 ''resize'') = ''resize''"
    "msg_type ((message0 ''command'')\<lparr>msg_command := Some ''ls''\<rparr>) = ''command''
     \<and> msg_command ((message0 ''command'')\<lparr>msg_command := Some ''ls''\<rparr>) = Some ''ls''
     \<and> ''ls'' \<noteq> []"
    by (simp_all add: message0_def)
  note c1 = connect_failure [OF m disjI1 [OF ef], where b = idle0 and w = empty0,
      unfolded Let_def]
  note c2 = connect_failure [OF m disjI2 [OF sf(1)], where b = idle0 and w = empty0,
      unfolded Let_def]
  from c1 ef fresh t(1,3) have
    "map res_type (emitted (new_effects empty0
       (snd (on_message env_bad_auth (Parsed connect0) idle0 empty0)))) = [error]
   \<and> sessions (snd (on_message env_bad_auth (Parsed connect0) idle0 empty0)) = sessions empty0
   \<and> bound_id (fst (on_message env_bad_auth (Parsed connect0) idle0 empty0))
       = Some (generateSessionId env_bad_auth)
   \<and> emitted (new_effects (snd (on_message env_bad_auth (Parsed connect0) idle0 empty0))
       (snd (on_message env0 (Parsed ((message0 ''command'')\<lparr>msg_command := Some ''ls''\<rparr>))
              (fst (on_message env_bad_auth (Parsed connect0) idle0 empty0))
              (snd (on_message env_bad_auth (Parsed connect0) idle0 empty0)))))
       = [error_response ''Shell not available'']
   \<and> shell_writes (new_effects (snd (on_message env_bad_auth (Parsed connect0) idle0 empty0))
       (snd (on_message env0 (Parsed ((message0 ''command'')\<lparr>msg_command := Some ''ls''\<rparr>))
              (fst (on_message env_bad_auth (Parsed connect0) idle0 empty0))
              (snd (on_message env_bad_auth (Parsed connect0) idle0 empty0)))))
       = []
   \<and> emitted (new_effects (snd (on_message env_bad_auth (Parsed connect0) idle0 empty0))
       (snd (on_message env0 (Parsed (message0 ''disconnect''))
              (fst (on_message env_bad_auth (Parsed connect0) idle0 empty0))
              (snd (on_message env_bad_auth (Parsed connect0) idle0 empty0)))))
       = [disconnected_response]
   \<and> sessionId (fst (on_message env0 (Parsed (message0 ''disconnect''))
              (fst (on_message env_bad_auth (Parsed connect0) idle0 empty0))
              (snd (on_message env_bad_auth (Parsed connect0) idle0 empty0))))
       = None"
    by blast
  moreover
  from c2 sf(2) t(2) have
    "map res_type (emitted (new_effects empty0
       (snd (on_message env_no_shell (Parsed connect0) idle0 empty0)))) = [error]
   \<and> emitted (new_effects (snd (on_message env_no_shell (Parsed connect0) idle0 empty0))
       (snd (on_message env0 (Parsed (message0 ''resize''))
              (fst (on_message env_no_shell (Parsed connect0) idle0 empty0))
              (snd (on_message env_no_shell (Parsed connect0) idle0 empty0)))))
       = []"
    by blast
  ultimately show ?thesis by blast
qed

text \<open>
  Where the claim as stated fails. After a refused login the identifier is still bound;
  the next \<open>command\<close> is answered \<open>Shell not available\<close> and the next \<open>resize\<close> is not
  answered, where a bridge with no session answers \<open>No active session\<close> to both. After a
  refused shell the session created for the attempt is still in the registry.
\<close>

theorem connect_failure_counterexample:
  "sessionId (fst (on_message env_bad_auth (Parsed connect0) idle0 empty0)) \<noteq> None
   \<and> emitted (new_effects (snd (on_message env_bad_auth (Parsed connect0) idle0 empty0))
       (snd (on_message env0 (Parsed ((message0 ''command'')\<lparr>msg_command := Some ''ls''\<rparr>))
              (fst (on_message env_bad_auth (Parsed connect0) idle0 empty0))
              (snd (on_message env_bad_auth (Parsed connect0) idle0 empty0)))))
       = [error_response ''Shell not available'']
   \<and> emitted (new_effects (snd (on_message env_bad_auth (Parsed connect0) idle0 empty0))
       (snd (on_message env0 (Parsed ((message0 ''command'')\<lparr>msg_command := Some ''ls''\<rparr>))
              idle0
              (snd (on_message env_bad_auth (Parsed connect0) idle0 empty0)))))
       = [error_response ''No active session'']
   \<and> emitted (new_effects (snd (on_message env_bad_auth (Parsed connect0) idle0 empty0))
       (snd (on_message env0 (Parsed (message0 ''resize''))
              (fst (on_message env_bad_auth (Parsed connect0) idle0 empty0))
              (snd (on_message env_bad_auth (Parsed connect0) idle0 empty0)))))
       = []
   \<and> emitted (new_effects (snd (on_message env_bad_auth (Parsed connect0) idle0 empty0))
       (snd (on_message env0 (Parsed (message0 ''resize''))
              idle0
              (snd (on_message env_bad_auth (Parsed connect0) idle0 empty0)))))
       = [error_response ''No active session'']
   \<and> sessions (snd (on_message env_no_shell (Parsed connect0) idle0 empty0))
        (generateSessionId env_no_shell) \<noteq> None"
proof -
  define b1 where "b1 = fst (on_message env_bad_auth (Parsed connect0) idle0 empty0)"
  define w1 where "w1 = snd (on_message env_bad_auth (Parsed connect0) idle0 empty0)"
  have m: "msg_type connect0 = ''connect''" "msg_config connect0 = Some config0"
    by (simp_all add: connect0_def message0_def)
  have ef: "establishment_fails env_bad_auth config0"
    by (simp add: establishment_fails_def env_bad_auth_def)
  have sf: "shell_open_fails env_no_shell config0" "\<not> establishment_fails env_no_shell config0"
    by (simp_all add: shell_open_fails_def establishment_fails_def env_no_shell_def env0_def)
  note st = failed_connect_state [OF m disjI1 [OF ef], where b = idle0 and w = empty0,
      folded b1_def w1_def]
  have bnd: "bound_id b1 = Some (generateSessionId env_bad_auth)"
    by (simp add: st(1))
  have none: "sessions w1 (generateSessionId env_bad_auth) = None"
    by (simp add: st(4) [OF ef] empty0_def)
  note after = after_failed_connect [OF bnd disjI1 [OF none]]
  have c: "msg_type ((message0 ''command'')\<lparr>msg_command := Some ''ls''\<rparr>) = ''command''"
    "msg_command ((message0 ''command'')\<lparr>msg_command := Some ''ls''\<rparr>) = Some ''ls''"
    "msg_type (message0 ''resize'') = ''resize''"
    by (simp_all add: message0_def)
  have idle: "bound_id idle0 = None"
    by (simp add: bound_id_def idle0_def)
  have 1: "sessionId b1 \<noteq> None"
    by (simp add: st(1))
  have 2: "emitted (new_effects w1
       (snd (on_message env0 (Parsed ((message0 ''command'')\<lparr>msg_command := Some ''ls''\<rparr>)) b1 w1)))
       = [error_response ''Shell not available'']"
    using after c(1,2) by blast
  have 3: "emitted (new_effects w1
       (snd (on_message env0 (Parsed ((message0 ''command'')\<lparr>msg_command := Some ''ls''\<rparr>))
              idle0 w1)))
       = [error_response ''No active session'']"
    by (simp add: on_message_command c(1) handle_command_unbound idle
          new_effects_trace [OF trace_sendResponse])
  have 4: "emitted (new_effects w1 (snd (on_message env0 (Parsed (message0 ''resize'')) b1 w1)))
       = []"
    using after c(3) by blast
  have 5: "emitted (new_effects w1 (snd (on_message env0 (Parsed (message0 ''resize'')) idle0 w1)))
       = [error_response ''No active session'']"
    by (simp add: on_message_resize c(3) handle_resize_unbound idle
          new_effects_trace [OF trace_sendResponse])
  have 6: "sessions (snd (on_message env_no_shell (Parsed connect0) idle0 empty0))
        (generateSessionId env_no_shell) \<noteq> None"
    using failed_connect_state(5) [OF m disjI2 [OF sf(1)] sf(2), where b = idle0 and w = empty0]
    by auto
  show ?thesis
    unfolding b1_def [symmetric] w1_def [symmetric]
    using 1 2 3 4 5 6 by blast
qed

end
